theory Spec2Isabelle
  imports Main
begin

section \<open>Python values\<close>

text \<open>
  The authentication design of the repository is Python code (the OAuth 2.0 architecture
  document: \<open>token_manager.py\<close>, \<open>oauth_service.py\<close>, \<open>wechat_service.py\<close>).
  Strings are UTF-8 byte sequences. A Python dictionary with string keys is an association
  list in insertion order, read with \<open>map_of\<close>; JSON numbers are integers here (no
  floating point).
\<close>

datatype json =
    JNone
  | JBool bool
  | JInt int
  | JStr string
  | JList "json list"
  | JDict "(string \<times> json) list"

type_synonym pydict = "(string \<times> json) list"

datatype error =
    JWTError
  | KeyError string
  | ValueError string
  | RuntimeError string json

text \<open>\<open>RuntimeError p v\<close> is \<open>RuntimeError(f"{p}{v}")\<close>: the prefix and the interpolated value.\<close>

text \<open>\<open>d.get(k)\<close>, \<open>d.get(k, default)\<close>, \<open>d[k]\<close>, \<open>d[k] = v\<close> and \<open>d.update(e)\<close>.\<close>

definition dict_get :: "pydict \<Rightarrow> string \<Rightarrow> json" where
  "dict_get d k = (case map_of d k of None \<Rightarrow> JNone | Some v \<Rightarrow> v)"

definition dict_get_default :: "pydict \<Rightarrow> string \<Rightarrow> json \<Rightarrow> json" where
  "dict_get_default d k dflt = (case map_of d k of None \<Rightarrow> dflt | Some v \<Rightarrow> v)"

definition dict_item :: "pydict \<Rightarrow> string \<Rightarrow> error + json" where
  "dict_item d k = (case map_of d k of None \<Rightarrow> Inl (KeyError k) | Some v \<Rightarrow> Inr v)"

fun dict_set :: "pydict \<Rightarrow> string \<Rightarrow> json \<Rightarrow> pydict" where
  "dict_set [] k v = [(k, v)]"
| "dict_set ((k', v') # d) k v =
     (if k' = k then (k, v) # d else (k', v') # dict_set d k v)"

fun dict_update :: "pydict \<Rightarrow> pydict \<Rightarrow> pydict" where
  "dict_update d [] = d"
| "dict_update d ((k, v) # e) = dict_update (dict_set d k v) e"

text \<open>Truth value of a Python object, as \<open>if x:\<close> and \<open>not x\<close> test it.\<close>

fun truthy :: "json \<Rightarrow> bool" where
  "truthy JNone = False"
| "truthy (JBool b) = b"
| "truthy (JInt i) = (if i = 0 then False else True)"
| "truthy (JStr s) = (case s of [] \<Rightarrow> False | _ # _ \<Rightarrow> True)"
| "truthy (JList l) = (case l of [] \<Rightarrow> False | _ # _ \<Rightarrow> True)"
| "truthy (JDict d) = (case d of [] \<Rightarrow> False | _ # _ \<Rightarrow> True)"

section \<open>Signed tokens (the \<open>jose.jwt\<close> library)\<close>

text \<open>
  \<open>jwt.encode\<close> and \<open>jwt.decode\<close> belong to the python-jose library and are used as
  black boxes. They are modelled symbolically: \<open>JWT k a c\<close> is the compact serialisation
  of the claims \<open>c\<close> signed with key \<open>k\<close> under algorithm \<open>a\<close>, and \<open>Opaque s\<close> is any
  other string. A signature verifies under the key it was made with and under no other,
  and no string that was not produced by signing carries a valid signature.

  \<open>jwt.encode\<close> turns the \<open>datetime\<close> values of \<open>exp\<close> and \<open>iat\<close> into whole seconds since
  the epoch, so the claims hold \<open>JInt\<close> timestamps and every clock reading is an integer.

  \<open>jwt.decode\<close> reads the clock once (\<open>now\<close>), checks the algorithm and the signature
  and then validates the registered claims with its default options: \<open>iat\<close> is an
  integer, \<open>nbf\<close> is an integer not after \<open>now\<close>, \<open>exp\<close> (unless \<open>verify_exp\<close> is
  switched off) is an integer not before \<open>now\<close>, \<open>aud\<close> and \<open>at_hash\<close> are absent (no
  audience and no access token are passed), \<open>sub\<close> and \<open>jti\<close> are strings. Every
  failure raises \<open>JWTError\<close> or one of its subclasses. A time claim that is not a JSON
  integer counts as invalid here; the conversions the library tries on such values are
  not modelled.
\<close>

datatype token = JWT string string pydict | Opaque string

definition jwt_encode :: "pydict \<Rightarrow> string \<Rightarrow> string \<Rightarrow> token" where
  "jwt_encode claims key algorithm = JWT key algorithm claims"

definition validate_int :: "pydict \<Rightarrow> string \<Rightarrow> bool" where
  "validate_int claims k =
     (case map_of claims k of None \<Rightarrow> True | Some (JInt i) \<Rightarrow> True | Some _ \<Rightarrow> False)"

definition validate_str :: "pydict \<Rightarrow> string \<Rightarrow> bool" where
  "validate_str claims k =
     (case map_of claims k of None \<Rightarrow> True | Some (JStr s) \<Rightarrow> True | Some _ \<Rightarrow> False)"

definition validate_nbf :: "int \<Rightarrow> pydict \<Rightarrow> bool" where
  "validate_nbf now claims =
     (case map_of claims ''nbf'' of None \<Rightarrow> True | Some (JInt n) \<Rightarrow> n \<le> now | Some _ \<Rightarrow> False)"

definition validate_exp :: "int \<Rightarrow> pydict \<Rightarrow> bool" where
  "validate_exp now claims =
     (case map_of claims ''exp'' of None \<Rightarrow> True | Some (JInt e) \<Rightarrow> now \<le> e | Some _ \<Rightarrow> False)"

definition validate_aud :: "pydict \<Rightarrow> bool" where
  "validate_aud claims = (case map_of claims ''aud'' of None \<Rightarrow> True | Some _ \<Rightarrow> False)"

definition validate_at_hash :: "pydict \<Rightarrow> bool" where
  "validate_at_hash claims =
     (case map_of claims ''at_hash'' of None \<Rightarrow> True | Some _ \<Rightarrow> False)"

definition validate_claims :: "int \<Rightarrow> bool \<Rightarrow> pydict \<Rightarrow> bool" where
  "validate_claims now verify_exp claims =
     (validate_int claims ''iat'' \<and> validate_nbf now claims \<and>
      (if verify_exp then validate_exp now claims else True) \<and>
      validate_aud claims \<and> validate_str claims ''sub'' \<and> validate_str claims ''jti'' \<and>
      validate_at_hash claims)"

definition jwt_decode :: "int \<Rightarrow> token \<Rightarrow> string \<Rightarrow> string list \<Rightarrow> bool \<Rightarrow> error + pydict" where
  "jwt_decode now tok key algorithms verify_exp =
     (case tok of
        Opaque s \<Rightarrow> Inl JWTError
      | JWT k a claims \<Rightarrow>
          if k = key \<and> a \<in> set algorithms \<and> validate_claims now verify_exp claims
          then Inr claims else Inl JWTError)"

section \<open>Token management (\<open>token_manager.py\<close>)\<close>

record token_config =
  ACCESS_TOKEN_LIFETIME :: int
  REFRESH_TOKEN_LIFETIME :: int
  REFRESH_TOKEN_ROTATION :: bool
  ALGORITHM :: string
  SECRET_KEY :: string

text \<open>The class attributes of \<open>TokenConfig\<close>; the lifetimes are \<open>timedelta\<close>s, in seconds.\<close>

definition TokenConfig :: token_config where
  "TokenConfig =
     \<lparr>ACCESS_TOKEN_LIFETIME = 3600,
      REFRESH_TOKEN_LIFETIME = 604800,
      REFRESH_TOKEN_ROTATION = True,
      ALGORITHM = ''HS256'',
      SECRET_KEY = ''${JWT_SECRET_KEY}''\<rparr>"

record token_manager =
  config :: token_config
  blacklisted_tokens :: "json set"
  refresh_token_store :: "json \<rightharpoonup> pydict"

definition TokenManager :: "token_config option \<Rightarrow> token_manager" where
  "TokenManager cfg =
     \<lparr>config = (case cfg of None \<Rightarrow> TokenConfig | Some c \<Rightarrow> c),
      blacklisted_tokens = {},
      refresh_token_store = Map.empty\<rparr>"

text \<open>
  What one token creation draws from outside: the two readings of \<open>datetime.utcnow()\<close>
  (the first for \<open>exp\<close>, the second for \<open>iat\<close>) and the result of \<open>str(uuid4())\<close>.
  The \<open>user_id\<close> is annotated \<open>str\<close>; the code passes the value on as it is, and
  \<open>refresh_tokens\<close> passes \<open>payload["sub"]\<close>, so it is a \<open>json\<close> value here.
\<close>

record issue_env =
  utcnow_exp :: int
  utcnow_iat :: int
  uuid4 :: string

record token_pair =
  access_token :: token
  refresh_token :: token
  token_type :: string
  expires_in :: int

definition create_access_token ::
  "token_manager \<Rightarrow> issue_env \<Rightarrow> json \<Rightarrow> pydict option \<Rightarrow> token" where
  "create_access_token tm env user_id additional_claims =
     (let expire = utcnow_exp env + ACCESS_TOKEN_LIFETIME (config tm);
          payload = [(''sub'', user_id),
                     (''type'', JStr ''access''),
                     (''exp'', JInt expire),
                     (''iat'', JInt (utcnow_iat env)),
                     (''jti'', JStr (uuid4 env))];
          payload' = (case additional_claims of
                        None \<Rightarrow> payload
                      | Some ac \<Rightarrow> if truthy (JDict ac) then dict_update payload ac else payload)
      in jwt_encode payload' (SECRET_KEY (config tm)) (ALGORITHM (config tm)))"

definition create_refresh_token ::
  "token_manager \<Rightarrow> issue_env \<Rightarrow> json \<Rightarrow> token \<times> token_manager" where
  "create_refresh_token tm env user_id =
     (let expire = utcnow_exp env + REFRESH_TOKEN_LIFETIME (config tm);
          token_id = JStr (uuid4 env);
          payload = [(''sub'', user_id),
                     (''type'', JStr ''refresh''),
                     (''exp'', JInt expire),
                     (''iat'', JInt (utcnow_iat env)),
                     (''jti'', token_id)];
          refresh = jwt_encode payload (SECRET_KEY (config tm)) (ALGORITHM (config tm))
      in (refresh,
          tm\<lparr>refresh_token_store := (refresh_token_store tm)
                (token_id \<mapsto> [(''user_id'', user_id), (''revoked'', JBool False)])\<rparr>))"

definition create_token_pair ::
  "token_manager \<Rightarrow> issue_env \<Rightarrow> issue_env \<Rightarrow> json \<Rightarrow> token_pair \<times> token_manager" where
  "create_token_pair tm env_a env_r user_id =
     (let access = create_access_token tm env_a user_id None;
          (refresh, tm') = create_refresh_token tm env_r user_id
      in (\<lparr>access_token = access,
           refresh_token = refresh,
           token_type = ''Bearer'',
           expires_in = ACCESS_TOKEN_LIFETIME (config tm)\<rparr>, tm'))"

text \<open>
  \<open>verify_access_token\<close> returns the payload or \<open>None\<close>; \<open>payload["jti"]\<close> raises
  \<open>KeyError\<close>, which the \<open>except JWTError\<close> clause does not catch.
\<close>

definition verify_access_token ::
  "token_manager \<Rightarrow> int \<Rightarrow> token \<Rightarrow> error + pydict option" where
  "verify_access_token tm now tok =
     (case jwt_decode now tok (SECRET_KEY (config tm)) [ALGORITHM (config tm)] True of
        Inl e \<Rightarrow> Inr None
      | Inr payload \<Rightarrow>
          if dict_get payload ''type'' = JStr ''access'' then
            (case dict_item payload ''jti'' of
               Inl e \<Rightarrow> Inl e
             | Inr jti \<Rightarrow> if jti \<in> blacklisted_tokens tm then Inr None else Inr (Some payload))
          else Inr None)"

definition refresh_tokens ::
  "token_manager \<Rightarrow> int \<Rightarrow> issue_env \<Rightarrow> issue_env \<Rightarrow> token \<Rightarrow>
     (error + token_pair option) \<times> token_manager" where
  "refresh_tokens tm now env_a env_r tok =
     (case jwt_decode now tok (SECRET_KEY (config tm)) [ALGORITHM (config tm)] True of
        Inl e \<Rightarrow> (Inr None, tm)
      | Inr payload \<Rightarrow>
          if dict_get payload ''type'' = JStr ''refresh'' then
            (let token_id = dict_get payload ''jti'' in
             case refresh_token_store tm token_id of
               None \<Rightarrow> (Inr None, tm)
             | Some stored \<Rightarrow>
                 if truthy (JDict stored) then
                   if truthy (dict_get stored ''revoked'') then (Inr None, tm)
                   else
                     (case dict_item payload ''sub'' of
                        Inl e \<Rightarrow> (Inl e, tm)
                      | Inr user_id \<Rightarrow>
                          (let tm1 = (if REFRESH_TOKEN_ROTATION (config tm)
                                      then tm\<lparr>refresh_token_store := (refresh_token_store tm)
                                               (token_id \<mapsto> dict_set stored ''revoked'' (JBool True))\<rparr>
                                      else tm);
                               (pair, tm2) = create_token_pair tm1 env_a env_r user_id
                           in (Inr (Some pair), tm2)))
                 else (Inr None, tm))
          else (Inr None, tm))"

definition revoke_refresh_token ::
  "token_manager \<Rightarrow> int \<Rightarrow> token \<Rightarrow> bool \<times> token_manager" where
  "revoke_refresh_token tm now tok =
     (case jwt_decode now tok (SECRET_KEY (config tm)) [ALGORITHM (config tm)] True of
        Inl e \<Rightarrow> (False, tm)
      | Inr payload \<Rightarrow>
          (let token_id = dict_get payload ''jti'' in
           case refresh_token_store tm token_id of
             None \<Rightarrow> (False, tm)
           | Some stored \<Rightarrow>
               (True, tm\<lparr>refresh_token_store := (refresh_token_store tm)
                           (token_id \<mapsto> dict_set stored ''revoked'' (JBool True))\<rparr>)))"

text \<open>
  \<open>blacklist_token\<close> decodes with \<open>verify_exp\<close> off and adds \<open>payload["jti"]\<close> to the
  blacklist; only \<open>JWTError\<close> is caught, so the \<open>KeyError\<close> of a payload with no \<open>jti\<close>
  leaves the function.
\<close>

definition blacklist_token :: "token_manager \<Rightarrow> int \<Rightarrow> token \<Rightarrow> error + token_manager" where
  "blacklist_token tm now tok =
     (case jwt_decode now tok (SECRET_KEY (config tm)) [ALGORITHM (config tm)] False of
        Inl e \<Rightarrow> Inr tm
      | Inr payload \<Rightarrow>
          (case dict_item payload ''jti'' of
             Inl e \<Rightarrow> Inl e
           | Inr jti \<Rightarrow> Inr (tm\<lparr>blacklisted_tokens := insert jti (blacklisted_tokens tm)\<rparr>)))"

section \<open>URL construction (\<open>urllib.parse\<close>)\<close>

text \<open>
  \<open>quote_plus\<close> keeps letters, digits and \<open>_.-~\<close>, writes a space as \<open>+\<close> and every other
  byte as \<open>%XX\<close> in upper-case hexadecimal; \<open>urlencode\<close> joins the quoted pairs with \<open>&\<close>.
\<close>

definition hex_digit :: "nat \<Rightarrow> char" where
  "hex_digit n = ''0123456789ABCDEF'' ! (n mod 16)"

definition always_safe :: "char \<Rightarrow> bool" where
  "always_safe c =
     (c \<in> set ''ABCDEFGHIJKLMNOPQRSTUVWXYZabcdefghijklmnopqrstuvwxyz0123456789_.-~'')"

fun quote_plus :: "string \<Rightarrow> string" where
  "quote_plus [] = []"
| "quote_plus (c # cs) =
     (if c = CHR '' '' then ''+''
      else if always_safe c then [c]
      else [CHR ''%'', hex_digit (of_char c div 16), hex_digit (of_char c mod 16)])
     @ quote_plus cs"

fun join :: "string \<Rightarrow> string list \<Rightarrow> string" where
  "join sep [] = []"
| "join sep [x] = x"
| "join sep (x # y # ys) = x @ sep @ join sep (y # ys)"

definition urlencode :: "(string \<times> string) list \<Rightarrow> string" where
  "urlencode params = join ''&'' (map (\<lambda>(k, v). quote_plus k @ ''='' @ quote_plus v) params)"

section \<open>The OAuth service (\<open>oauth_config.py\<close>, \<open>oauth_service.py\<close>)\<close>

record oauth_config =
  provider :: string
  client_id :: string
  client_secret :: string
  auth_url :: string
  token_url :: string
  userinfo_url :: string
  scopes :: "string list"
  redirect_uri :: string

definition OAUTH_CONFIGS :: "(string \<times> oauth_config) list" where
  "OAUTH_CONFIGS =
     [(''google'',
       \<lparr>provider = ''google'', client_id = ''${GOOGLE_CLIENT_ID}'',
        client_secret = ''${GOOGLE_CLIENT_SECRET}'',
        auth_url = ''https://accounts.google.com/o/oauth2/v2/auth'',
        token_url = ''https://oauth2.googleapis.com/token'',
        userinfo_url = ''https://www.googleapis.com/oauth2/v3/userinfo'',
        scopes = [''openid'', ''email'', ''profile''],
        redirect_uri = ''http://localhost:3000/auth/callback''\<rparr>),
      (''github'',
       \<lparr>provider = ''github'', client_id = ''${GITHUB_CLIENT_ID}'',
        client_secret = ''${GITHUB_CLIENT_SECRET}'',
        auth_url = ''https://github.com/login/oauth/authorize'',
        token_url = ''https://github.com/login/oauth/access_token'',
        userinfo_url = ''https://api.github.com/user'',
        scopes = [''read:user'', ''user:email''],
        redirect_uri = ''http://localhost:3000/auth/callback''\<rparr>),
      (''self_hosted'',
       \<lparr>provider = ''self_hosted'', client_id = ''${SELF_HOSTED_CLIENT_ID}'',
        client_secret = ''${SELF_HOSTED_CLIENT_SECRET}'',
        auth_url = ''https://auth.pdns.local/oauth/authorize'',
        token_url = ''https://auth.pdns.local/oauth/token'',
        userinfo_url = ''https://auth.pdns.local/userinfo'',
        scopes = [''openid'', ''profile'', ''email''],
        redirect_uri = ''http://localhost:3000/auth/callback''\<rparr>),
      (''wechat'',
       \<lparr>provider = ''wechat'', client_id = ''${WECHAT_APP_ID}'',
        client_secret = ''${WECHAT_APP_SECRET}'',
        auth_url = ''https://open.weixin.qq.com/connect/qrconnect'',
        token_url = ''https://api.weixin.qq.com/sns/oauth2/access_token'',
        userinfo_url = ''https://api.weixin.qq.com/sns/userinfo'',
        scopes = [''snsapi_login''],
        redirect_uri = ''http://localhost:3000/auth/callback/wechat''\<rparr>),
      (''alipay'',
       \<lparr>provider = ''alipay'', client_id = ''${ALIPAY_APP_ID}'',
        client_secret = ''${ALIPAY_APP_PRIVATE_KEY}'',
        auth_url = ''https://openauth.alipay.com/oauth2/publicAppAuthorize.htm'',
        token_url = ''https://openapi.alipay.com/gateway.do'',
        userinfo_url = ''https://openapi.alipay.com/userinfo/share'',
        scopes = [''auth_user''],
        redirect_uri = ''http://localhost:3000/auth/callback/alipay''\<rparr>),
      (''qq'',
       \<lparr>provider = ''qq'', client_id = ''${QQ_APP_ID}'',
        client_secret = ''${QQ_APP_KEY}'',
        auth_url = ''https://graph.qq.com/oauth2.0/authorize'',
        token_url = ''https://graph.qq.com/oauth2.0/token'',
        userinfo_url = ''https://graph.qq.com/user/get_user_info'',
        scopes = [''get_user_info''],
        redirect_uri = ''http://localhost:3000/auth/callback/qq''\<rparr>),
      (''dingtalk'',
       \<lparr>provider = ''dingtalk'', client_id = ''${DINGTALK_APP_KEY}'',
        client_secret = ''${DINGTALK_APP_SECRET}'',
        auth_url = ''https://oapi.dingtalk.com/connect/qrconnect'',
        token_url = ''https://oapi.dingtalk.com/sns/gettoken'',
        userinfo_url = ''https://oapi.dingtalk.com/sns/getuserinfo'',
        scopes = [''snsapi''],
        redirect_uri = ''http://localhost:3000/auth/callback/dingtalk''\<rparr>)]"

text \<open>
  The collaborators of the service. \<open>http_post url data\<close> is \<open>requests.post\<close> with the form
  data (the \<open>Accept\<close> header is constant); \<open>http_get url tok\<close> is \<open>requests.get\<close> with the
  header \<open>Authorization: Bearer {tok}\<close>; a response carries \<open>ok\<close>, \<open>text\<close> and the object
  \<open>json()\<close> parses. \<open>find_or_create_user\<close> is the user store: the source leaves its body
  to the application (a placeholder), and uses \<open>str(user.id)\<close> and \<open>user.to_dict()\<close> of
  what it returns.
\<close>

record http_response =
  resp_ok :: bool
  resp_text :: string
  resp_json :: pydict

record user =
  uid :: string
  to_dict :: pydict

record world =
  http_post :: "string \<Rightarrow> pydict \<Rightarrow> http_response"
  http_get :: "string \<Rightarrow> json \<Rightarrow> http_response"
  find_or_create_user :: "string \<Rightarrow> pydict \<Rightarrow> error + user"

record oauth_service =
  configs :: "string \<rightharpoonup> oauth_config"
  token_manager :: token_manager
  state_store :: "string \<rightharpoonup> pydict"

definition OAuthService :: "(string \<rightharpoonup> oauth_config) \<Rightarrow> token_manager \<Rightarrow> oauth_service" where
  "OAuthService oauth_configs tm =
     \<lparr>configs = oauth_configs, token_manager = tm, state_store = Map.empty\<rparr>"

text \<open>
  \<open>get_authorization_url\<close>: \<open>token_urlsafe\<close> is what \<open>secrets.token_urlsafe(32)\<close> returns
  when it is called. A state is generated and stored only when the caller passes none
  (\<open>None\<close> or the empty string).
\<close>

definition get_authorization_url ::
  "oauth_service \<Rightarrow> string \<Rightarrow> string \<Rightarrow> string option \<Rightarrow> error + string \<times> oauth_service" where
  "get_authorization_url svc token_urlsafe provider_id state =
     (case configs svc provider_id of
        None \<Rightarrow> Inl (ValueError (''Unknown OAuth provider: '' @ provider_id))
      | Some cfg \<Rightarrow>
          (let generated =
                 (token_urlsafe,
                  svc\<lparr>state_store := (state_store svc)
                         (token_urlsafe \<mapsto> [(''provider'', JStr provider_id)])\<rparr>);
               (state', svc') =
                 (case state of
                    None \<Rightarrow> generated
                  | Some s \<Rightarrow> if truthy (JStr s) then (s, svc) else generated);
               params = [(''client_id'', client_id cfg),
                         (''redirect_uri'', redirect_uri cfg),
                         (''response_type'', ''code''),
                         (''scope'', join '' '' (scopes cfg)),
                         (''state'', state')]
           in Inr (auth_url cfg @ ''?'' @ urlencode params, svc')))"

definition exchange_code_for_token ::
  "world \<Rightarrow> string \<Rightarrow> string \<Rightarrow> oauth_config \<Rightarrow> error + pydict" where
  "exchange_code_for_token w provider_id code cfg =
     (let response = http_post w (token_url cfg)
                       [(''client_id'', JStr (client_id cfg)),
                        (''client_secret'', JStr (client_secret cfg)),
                        (''code'', JStr code),
                        (''redirect_uri'', JStr (redirect_uri cfg)),
                        (''grant_type'', JStr ''authorization_code'')]
      in if resp_ok response then Inr (resp_json response)
         else Inl (RuntimeError ''Token exchange failed: '' (JStr (resp_text response))))"

definition get_user_info ::
  "world \<Rightarrow> string \<Rightarrow> json \<Rightarrow> oauth_config \<Rightarrow> error + pydict" where
  "get_user_info w provider_id access_tok cfg =
     (let response = http_get w (userinfo_url cfg) access_tok
      in if resp_ok response then Inr (resp_json response)
         else Inl (RuntimeError ''Failed to get user info: '' (JStr (resp_text response))))"

record callback_result =
  user :: pydict
  tokens :: token_pair

text \<open>
  \<open>handle_callback\<close>: the state is looked up and popped before anything else; an
  exception raised after the pop leaves the store without the state.
\<close>

definition handle_callback ::
  "world \<Rightarrow> oauth_service \<Rightarrow> issue_env \<Rightarrow> issue_env \<Rightarrow> string \<Rightarrow> string \<Rightarrow> string \<Rightarrow>
     (error + callback_result) \<times> oauth_service" where
  "handle_callback w svc env_a env_r provider_id code state =
     (case state_store svc state of
        None \<Rightarrow> (Inl (ValueError ''Invalid state parameter''), svc)
      | Some stored_state \<Rightarrow>
          (let svc1 = svc\<lparr>state_store := (state_store svc)(state := None)\<rparr> in
           if dict_get stored_state ''provider'' = JStr provider_id then
             (case configs svc1 provider_id of
                None \<Rightarrow> (Inl (ValueError (''Unknown OAuth provider: '' @ provider_id)), svc1)
              | Some cfg \<Rightarrow>
                  (case exchange_code_for_token w provider_id code cfg of
                     Inl e \<Rightarrow> (Inl e, svc1)
                   | Inr token_data \<Rightarrow>
                       (case dict_item token_data ''access_token'' of
                          Inl e \<Rightarrow> (Inl e, svc1)
                        | Inr access_tok \<Rightarrow>
                            (case get_user_info w provider_id access_tok cfg of
                               Inl e \<Rightarrow> (Inl e, svc1)
                             | Inr user_info \<Rightarrow>
                                 (case find_or_create_user w provider_id user_info of
                                    Inl e \<Rightarrow> (Inl e, svc1)
                                  | Inr usr \<Rightarrow>
                                      (let (pair, tm') =
                                             create_token_pair (token_manager svc1) env_a env_r (JStr (uid usr))
                                       in (Inr \<lparr>user = to_dict usr, tokens = pair\<rparr>,
                                           svc1\<lparr>token_manager := tm'\<rparr>)))))))
           else (Inl (ValueError ''Provider mismatch''), svc1)))"

section \<open>The WeChat adapter (\<open>wechat_service.py\<close>)\<close>

text \<open>
  \<open>httpx_get url params\<close> is the object that \<open>response.json()\<close> gives for
  \<open>client.get(url, params=params)\<close>. In Python \<open>0 == False\<close>, so an \<open>errcode\<close> of \<open>0\<close> or
  \<open>False\<close> is no error.
\<close>

record wechat_service =
  app_id :: string
  app_secret :: string

definition WECHAT_API_BASE :: string where
  "WECHAT_API_BASE = ''https://api.weixin.qq.com''"

fun is_zero :: "json \<Rightarrow> bool" where
  "is_zero (JInt i) = (i = 0)"
| "is_zero (JBool b) = (if b then False else True)"
| "is_zero _ = False"

definition has_errcode :: "pydict \<Rightarrow> bool" where
  "has_errcode d =
     (case map_of d ''errcode'' of None \<Rightarrow> False | Some v \<Rightarrow> if is_zero v then False else True)"

definition wechat_token_error :: string where
  "wechat_token_error =
     [CHR 0xE5, CHR 0xBE, CHR 0xAE, CHR 0xE4, CHR 0xBF, CHR 0xA1] @ '' Token '' @
     [CHR 0xE9, CHR 0x94, CHR 0x99, CHR 0xE8, CHR 0xAF, CHR 0xAF] @ '': ''"

definition wechat_userinfo_error :: string where
  "wechat_userinfo_error =
     [CHR 0xE8, CHR 0x8E, CHR 0xB7, CHR 0xE5, CHR 0x8F, CHR 0x96, CHR 0xE7, CHR 0x94, CHR 0xA8,
      CHR 0xE6, CHR 0x88, CHR 0xB7, CHR 0xE4, CHR 0xBF, CHR 0xA1, CHR 0xE6, CHR 0x81, CHR 0xAF,
      CHR 0xE9, CHR 0x94, CHR 0x99, CHR 0xE8, CHR 0xAF, CHR 0xAF] @ '': ''"

definition WeChat_get_user_info ::
  "(string \<Rightarrow> pydict \<Rightarrow> pydict) \<Rightarrow> wechat_service \<Rightarrow> json \<Rightarrow> json \<Rightarrow> error + pydict" where
  "WeChat_get_user_info httpx_get svc access_tok openid =
     (let data = httpx_get (WECHAT_API_BASE @ ''/sns/userinfo'')
                   [(''access_token'', access_tok), (''openid'', openid), (''lang'', JStr ''zh_CN'')]
      in if has_errcode data then
           (case dict_item data ''errmsg'' of
              Inl e \<Rightarrow> Inl e
            | Inr msg \<Rightarrow> Inl (RuntimeError wechat_userinfo_error msg))
         else Inr [(''openid'', dict_get data ''openid''),
                   (''nickname'', dict_get data ''nickname''),
                   (''sex'', dict_get data ''sex''),
                   (''province'', dict_get data ''province''),
                   (''city'', dict_get data ''city''),
                   (''country'', dict_get data ''country''),
                   (''headimgurl'', dict_get data ''headimgurl''),
                   (''privilege'', dict_get_default data ''privilege'' (JList [])),
                   (''unionid'', dict_get data ''unionid'')])"

definition WeChat_handle_callback ::
  "(string \<Rightarrow> pydict \<Rightarrow> pydict) \<Rightarrow> wechat_service \<Rightarrow> string \<Rightarrow> error + pydict" where
  "WeChat_handle_callback httpx_get svc code =
     (let token_data = httpx_get (WECHAT_API_BASE @ ''/sns/oauth2/access_token'')
                         [(''appid'', JStr (app_id svc)),
                          (''secret'', JStr (app_secret svc)),
                          (''code'', JStr code),
                          (''grant_type'', JStr ''authorization_code'')]
      in if has_errcode token_data then
           (case dict_item token_data ''errmsg'' of
              Inl e \<Rightarrow> Inl e
            | Inr msg \<Rightarrow> Inl (RuntimeError wechat_token_error msg))
         else
           (case dict_item token_data ''access_token'' of
              Inl e \<Rightarrow> Inl e
            | Inr access_tok \<Rightarrow>
                (case dict_item token_data ''openid'' of
                   Inl e \<Rightarrow> Inl e
                 | Inr openid \<Rightarrow>
                     (case WeChat_get_user_info httpx_get svc access_tok openid of
                        Inl e \<Rightarrow> Inl e
                      | Inr user_info \<Rightarrow>
                          Inr [(''provider'', JStr ''wechat''),
                               (''openid'', openid),
                               (''unionid'', dict_get token_data ''unionid''),
                               (''access_token'', access_tok),
                               (''refresh_token'', dict_get token_data ''refresh_token''),
                               (''expires_in'', dict_get_default token_data ''expires_in'' (JInt 7200)),
                               (''user_info'', JDict user_info)]))))"

section \<open>Sequences of calls\<close>

text \<open>
  The routes call the token manager and the OAuth service one request at a time. An
  event is a call together with the instant at which it is made; within one call every
  clock reading is that instant. The random strings a call draws (\<open>uuid4\<close>,
  \<open>token_urlsafe\<close>) are arguments of the call. A call that raises leaves the state as
  the code left it when the exception was raised.
\<close>

definition env_at :: "int \<Rightarrow> string \<Rightarrow> issue_env" where
  "env_at now u = \<lparr>utcnow_exp = now, utcnow_iat = now, uuid4 = u\<rparr>"

text \<open>
  The calls of the token manager. The results of \<open>uuid4\<close> come first (for the access
  token, then for the refresh token), then the arguments of the method.
\<close>

datatype tm_call =
    CreateAccessToken string json "pydict option"
  | CreateRefreshToken string json
  | CreateTokenPair string string json
  | VerifyAccessToken token
  | RefreshTokens string string token
  | RevokeRefreshToken token
  | BlacklistToken token

fun tm_step :: "token_manager \<Rightarrow> int \<times> tm_call \<Rightarrow> token_manager" where
  "tm_step tm (now, CreateAccessToken u usr ac) = tm"
| "tm_step tm (now, CreateRefreshToken u usr) = snd (create_refresh_token tm (env_at now u) usr)"
| "tm_step tm (now, CreateTokenPair ua ur usr) =
     snd (create_token_pair tm (env_at now ua) (env_at now ur) usr)"
| "tm_step tm (now, VerifyAccessToken t) = tm"
| "tm_step tm (now, RefreshTokens ua ur t) =
     snd (refresh_tokens tm now (env_at now ua) (env_at now ur) t)"
| "tm_step tm (now, RevokeRefreshToken t) = snd (revoke_refresh_token tm now t)"
| "tm_step tm (now, BlacklistToken t) =
     (case blacklist_token tm now t of Inl e \<Rightarrow> tm | Inr tm' \<Rightarrow> tm')"

definition tm_run :: "token_manager \<Rightarrow> (int \<times> tm_call) list \<Rightarrow> token_manager" where
  "tm_run tm evs = foldl tm_step tm evs"

text \<open>The identifiers that a call draws from \<open>uuid4\<close>.\<close>

fun tm_draws :: "tm_call \<Rightarrow> string list" where
  "tm_draws (CreateAccessToken u usr ac) = [u]"
| "tm_draws (CreateRefreshToken u usr) = [u]"
| "tm_draws (CreateTokenPair ua ur usr) = [ua, ur]"
| "tm_draws (RefreshTokens ua ur t) = [ua, ur]"
| "tm_draws _ = []"

text \<open>The ledger record of a token id exists and its \<open>revoked\<close> entry is \<open>True\<close>.\<close>

definition revoked_in :: "token_manager \<Rightarrow> json \<Rightarrow> bool" where
  "revoked_in tm token_id =
     (case refresh_token_store tm token_id of
        None \<Rightarrow> False
      | Some stored \<Rightarrow> dict_get stored ''revoked'' = JBool True)"

text \<open>
  The calls of the OAuth service: \<open>GetAuthorizationUrl tok p st\<close> with the result \<open>tok\<close> of
  \<open>token_urlsafe\<close>, the provider and the optional state; \<open>HandleCallback w ua ur p c st\<close>
  with the collaborators, the two results of \<open>uuid4\<close>, the provider, the code and the
  state; and the calls of the token manager that the service holds.
\<close>

datatype svc_call =
    GetAuthorizationUrl string string "string option"
  | HandleCallback world string string string string string
  | TokenManagerCall tm_call

fun svc_step :: "oauth_service \<Rightarrow> int \<times> svc_call \<Rightarrow> oauth_service" where
  "svc_step svc (now, GetAuthorizationUrl tok p st) =
     (case get_authorization_url svc tok p st of Inl e \<Rightarrow> svc | Inr (url, svc') \<Rightarrow> svc')"
| "svc_step svc (now, HandleCallback w ua ur p c st) =
     snd (handle_callback w svc (env_at now ua) (env_at now ur) p c st)"
| "svc_step svc (now, TokenManagerCall c) =
     svc\<lparr>token_manager := tm_step (token_manager svc) (now, c)\<rparr>"

definition svc_run :: "oauth_service \<Rightarrow> (int \<times> svc_call) list \<Rightarrow> oauth_service" where
  "svc_run svc evs = foldl svc_step svc evs"

text \<open>The state tokens that a call draws from \<open>secrets.token_urlsafe\<close>.\<close>

fun generated_states :: "svc_call \<Rightarrow> string list" where
  "generated_states (GetAuthorizationUrl tok p None) = [tok]"
| "generated_states (GetAuthorizationUrl tok p (Some s)) = (if truthy (JStr s) then [] else [tok])"
| "generated_states _ = []"

text \<open>The state that a callback presents.\<close>

fun presented_states :: "svc_call \<Rightarrow> string list" where
  "presented_states (HandleCallback w ua ur p c st) = [st]"
| "presented_states _ = []"

section \<open>Example collaborators\<close>

text \<open>
  A provider that accepts every code and a user store that maps every identity to the
  local user 42; a WeChat endpoint that answers the token request with \<open>openid\<close> and
  \<open>access_token\<close> (and the given extra entries) and the user-info request with a
  payload of \<open>openid\<close>, \<open>nickname\<close> and \<open>headimgurl\<close>.
\<close>

definition stub_world :: world where
  "stub_world =
     \<lparr>http_post = (\<lambda>url data.
        \<lparr>resp_ok = True, resp_text = [], resp_json = [(''access_token'', JStr ''gho_1'')]\<rparr>),
      http_get = (\<lambda>url tok.
        \<lparr>resp_ok = True, resp_text = [], resp_json = [(''login'', JStr ''u1'')]\<rparr>),
      find_or_create_user = (\<lambda>p info. Inr \<lparr>uid = ''42'', to_dict = [(''id'', JInt 42)]\<rparr>)\<rparr>"

definition example_service :: oauth_service where
  "example_service = OAuthService (map_of OAUTH_CONFIGS) (TokenManager None)"

definition example_wechat :: wechat_service where
  "example_wechat = \<lparr>app_id = ''wx1'', app_secret = ''s1''\<rparr>"

text \<open>The nickname of the example payload, U+5C0F U+660E in UTF-8.\<close>

definition xiaoming :: string where
  "xiaoming = [CHR 0xE5, CHR 0xB0, CHR 0x8F, CHR 0xE6, CHR 0x98, CHR 0x8E]"

definition wechat_stub :: "pydict \<Rightarrow> string \<Rightarrow> pydict \<Rightarrow> pydict" where
  "wechat_stub extra url params =
     (if url = WECHAT_API_BASE @ ''/sns/userinfo''
      then [(''openid'', JStr ''abc''), (''nickname'', JStr xiaoming), (''headimgurl'', JStr ''http://x'')]
      else [(''access_token'', JStr ''t1''), (''openid'', JStr ''abc'')] @ extra)"

section \<open>Dictionaries\<close>

lemma map_of_dict_set: "map_of (dict_set d k v) = (map_of d)(k \<mapsto> v)"
  by (induction d k v rule: dict_set.induct) auto

lemma dict_get_dict_set: "dict_get (dict_set d k v) k' = (if k' = k then v else dict_get d k')"
  by (simp add: dict_get_def map_of_dict_set)

lemmas jose_defs = jwt_encode_def jwt_decode_def validate_claims_def validate_int_def
  validate_str_def validate_nbf_def validate_exp_def validate_aud_def validate_at_hash_def

section \<open>What each token-manager call does to the state\<close>

lemma uuid4_env_at: "uuid4 (env_at now u) = u"
  by (simp add: env_at_def)

lemma create_refresh_token_state:
  "snd (create_refresh_token tm env u) =
     tm\<lparr>refresh_token_store := (refresh_token_store tm)
           (JStr (uuid4 env) \<mapsto> [(''user_id'', u), (''revoked'', JBool False)])\<rparr>"
  by (simp add: create_refresh_token_def Let_def)

lemma create_token_pair_state:
  "snd (create_token_pair tm ea er u) = snd (create_refresh_token tm er u)"
  by (simp add: create_token_pair_def Let_def split: prod.splits)

lemma create_refresh_token_revoked:
  "revoked_in tm j \<Longrightarrow> j \<noteq> JStr (uuid4 env) \<Longrightarrow>
   revoked_in (snd (create_refresh_token tm env u)) j"
  by (simp add: create_refresh_token_state revoked_in_def)

lemma refresh_tokens_config:
  "config (snd (refresh_tokens tm now ea er t)) = config tm"
  by (simp add: refresh_tokens_def Let_def split_beta create_token_pair_state
      create_refresh_token_state split: sum.split option.split)

lemma refresh_tokens_blacklist:
  "blacklisted_tokens (snd (refresh_tokens tm now ea er t)) = blacklisted_tokens tm"
  by (simp add: refresh_tokens_def Let_def split_beta create_token_pair_state
      create_refresh_token_state split: sum.split option.split)

lemma refresh_tokens_revoked:
  "revoked_in tm j \<Longrightarrow> j \<noteq> JStr (uuid4 er) \<Longrightarrow>
   revoked_in (snd (refresh_tokens tm now ea er t)) j"
  by (auto simp: refresh_tokens_def Let_def split_beta create_token_pair_state revoked_in_def
      create_refresh_token_state dict_get_dict_set
      split: sum.split option.split option.splits)

lemma revoke_refresh_token_config:
  "config (snd (revoke_refresh_token tm now t)) = config tm"
  by (simp add: revoke_refresh_token_def Let_def split: sum.split option.split)

lemma revoke_refresh_token_blacklist:
  "blacklisted_tokens (snd (revoke_refresh_token tm now t)) = blacklisted_tokens tm"
  by (simp add: revoke_refresh_token_def Let_def split: sum.split option.split)

lemma revoke_refresh_token_revoked:
  "revoked_in tm j \<Longrightarrow> revoked_in (snd (revoke_refresh_token tm now t)) j"
  by (auto simp: revoke_refresh_token_def Let_def revoked_in_def dict_get_dict_set
      split: sum.split option.split option.splits)

lemma blacklist_token_config:
  "blacklist_token tm now t = Inr tm' \<Longrightarrow> config tm' = config tm"
  by (auto simp: blacklist_token_def split: sum.splits)

lemma blacklist_token_mono:
  "blacklist_token tm now t = Inr tm' \<Longrightarrow> blacklisted_tokens tm \<subseteq> blacklisted_tokens tm'"
  by (auto simp: blacklist_token_def split: sum.splits)

lemma blacklist_token_store:
  "blacklist_token tm now t = Inr tm' \<Longrightarrow> refresh_token_store tm' = refresh_token_store tm"
  by (auto simp: blacklist_token_def split: sum.splits)

lemma tm_step_config: "config (tm_step tm ev) = config tm"
  by (cases "(tm, ev)" rule: tm_step.cases)
     (auto simp: create_refresh_token_state create_token_pair_state refresh_tokens_config
       revoke_refresh_token_config blacklist_token_config split: sum.split)

lemma tm_step_blacklist:
  "j \<in> blacklisted_tokens tm \<Longrightarrow> j \<in> blacklisted_tokens (tm_step tm ev)"
  by (cases "(tm, ev)" rule: tm_step.cases)
     (auto simp: create_refresh_token_state create_token_pair_state refresh_tokens_blacklist
       revoke_refresh_token_blacklist split: sum.split dest: blacklist_token_mono)

lemma tm_step_revoked:
  "revoked_in tm (JStr rid) \<Longrightarrow> rid \<notin> set (tm_draws (snd ev)) \<Longrightarrow>
   revoked_in (tm_step tm ev) (JStr rid)"
proof (cases "(tm, ev)" rule: tm_step.cases)
  case (7 tm0 now t)
  assume "revoked_in tm (JStr rid)"
  with 7 show ?thesis
    by (auto simp: revoked_in_def split: sum.split dest: blacklist_token_store)
qed (auto simp: create_token_pair_state create_refresh_token_revoked refresh_tokens_revoked
       revoke_refresh_token_revoked uuid4_env_at)

lemma tm_run_config: "config (tm_run tm evs) = config tm"
  unfolding tm_run_def by (induction evs arbitrary: tm) (simp_all add: tm_step_config)

lemma tm_run_blacklist:
  "j \<in> blacklisted_tokens tm \<Longrightarrow> j \<in> blacklisted_tokens (tm_run tm evs)"
  unfolding tm_run_def by (induction evs arbitrary: tm) (simp_all add: tm_step_blacklist)

lemma tm_run_revoked:
  "revoked_in tm (JStr rid) \<Longrightarrow> \<forall>ev \<in> set evs. rid \<notin> set (tm_draws (snd ev)) \<Longrightarrow>
   revoked_in (tm_run tm evs) (JStr rid)"
  unfolding tm_run_def by (induction evs arbitrary: tm) (simp_all add: tm_step_revoked)

lemma refresh_tokens_of_revoked:
  "revoked_in tm (dict_get claims ''jti'') \<Longrightarrow>
   refresh_tokens tm now ea er (JWT k a claims) = (Inr None, tm)"
  by (auto simp: refresh_tokens_def jwt_decode_def revoked_in_def Let_def split: option.splits)

section \<open>Issuing and verifying\<close>

text \<open>
  C4 (round-trip issuance). A pair is issued for a subject; the access token is verified
  at any instant up to its expiry. Verification returns the claims, with \<open>sub\<close> the
  subject and \<open>type\<close> \<open>"access"\<close>. The identifier that \<open>uuid4\<close> returned for the token is
  fresh: it is not already on the blacklist.
\<close>

theorem issue_then_verify:
  assumes "create_token_pair tm env_a env_r (JStr subject) = (pair, tm1)"
    and "now \<le> utcnow_exp env_a + ACCESS_TOKEN_LIFETIME (config tm)"
    and "JStr (uuid4 env_a) \<notin> blacklisted_tokens tm"
  shows "\<exists>claims. verify_access_token tm1 now (access_token pair) = Inr (Some claims)
           \<and> dict_get claims ''sub'' = JStr subject
           \<and> dict_get claims ''type'' = JStr ''access''"
  using assms
  by (auto simp: create_token_pair_def create_refresh_token_def create_access_token_def Let_def
      verify_access_token_def jose_defs dict_get_def dict_item_def)

theorem issue_then_verify_witness:
  "\<exists>claims. verify_access_token
       (snd (create_token_pair (TokenManager None) (env_at 1000 ''a0'') (env_at 1000 ''r0'') (JStr ''42'')))
       1000
       (access_token
          (fst (create_token_pair (TokenManager None) (env_at 1000 ''a0'') (env_at 1000 ''r0'') (JStr ''42''))))
     = Inr (Some claims)
     \<and> dict_get claims ''sub'' = JStr ''42'' \<and> dict_get claims ''type'' = JStr ''access''"
  using issue_then_verify [of "TokenManager None" "env_at 1000 ''a0''" "env_at 1000 ''r0''" "''42''"
      "fst (create_token_pair (TokenManager None) (env_at 1000 ''a0'') (env_at 1000 ''r0'') (JStr ''42''))"
      "snd (create_token_pair (TokenManager None) (env_at 1000 ''a0'') (env_at 1000 ''r0'') (JStr ''42''))"
      1000]
  by (simp add: TokenManager_def TokenConfig_def env_at_def)

section \<open>Refresh rotation\<close>

text \<open>
  C1 (refresh rotation single-use). With rotation enabled, a refresh token R is issued and
  presented to \<open>refresh_tokens\<close> before it expires: the call succeeds and leaves R's ledger
  record revoked. After any further calls, every later \<open>refresh_tokens\<close> with R returns
  \<open>None\<close> and changes nothing. The identifiers that \<open>uuid4\<close> returns later are fresh: none
  of them is R's.
\<close>

theorem refresh_rotation_single_use:
  assumes rot: "REFRESH_TOKEN_ROTATION (config tm)"
    and issue: "create_token_pair tm env_a env_r (JStr usr) = (pair, tm1)"
    and live: "now1 \<le> utcnow_exp env_r + REFRESH_TOKEN_LIFETIME (config tm)"
    and first: "refresh_tokens tm1 now1 env_a1 env_r1 (refresh_token pair) = (res1, tm2)"
    and new_id: "uuid4 env_r1 \<noteq> uuid4 env_r"
    and later: "\<forall>ev \<in> set evs. uuid4 env_r \<notin> set (tm_draws (snd ev))"
  shows "(\<exists>pair1. res1 = Inr (Some pair1))
       \<and> revoked_in tm2 (JStr (uuid4 env_r))
       \<and> refresh_tokens (tm_run tm2 evs) now2 env_a2 env_r2 (refresh_token pair)
           = (Inr None, tm_run tm2 evs)"
proof -
  let ?rid = "JStr (uuid4 env_r)"
  let ?claims = "[(''sub'', JStr usr), (''type'', JStr ''refresh''),
                  (''exp'', JInt (utcnow_exp env_r + REFRESH_TOKEN_LIFETIME (config tm))),
                  (''iat'', JInt (utcnow_iat env_r)), (''jti'', ?rid)]"
  from issue
  have R: "refresh_token pair = JWT (SECRET_KEY (config tm)) (ALGORITHM (config tm)) ?claims"
    and tm1: "tm1 = tm\<lparr>refresh_token_store := (refresh_token_store tm)
                 (?rid \<mapsto> [(''user_id'', JStr usr), (''revoked'', JBool False)])\<rparr>"
    by (auto simp: create_token_pair_def create_refresh_token_def jwt_encode_def Let_def)
  have jti: "dict_get ?claims ''jti'' = ?rid"
    by (simp add: dict_get_def)
  from first rot live new_id have res: "\<exists>pair1. res1 = Inr (Some pair1)"
    and rev: "revoked_in tm2 ?rid"
    unfolding R tm1
    by (auto simp: refresh_tokens_def jose_defs dict_get_def dict_item_def Let_def split_beta
        create_token_pair_state create_refresh_token_state revoked_in_def)
  from rev later have "revoked_in (tm_run tm2 evs) ?rid"
    by (rule tm_run_revoked)
  then have "refresh_tokens (tm_run tm2 evs) now2 env_a2 env_r2 (refresh_token pair)
           = (Inr None, tm_run tm2 evs)"
    unfolding R by (intro refresh_tokens_of_revoked) (simp only: jti)
  with res rev show ?thesis by simp
qed

theorem refresh_rotation_single_use_witness:
  "(\<exists>pair1. fst (refresh_tokens
        (snd (create_token_pair (TokenManager None) (env_at 1000 ''a0'') (env_at 1000 ''r0'') (JStr ''42'')))
        2000 (env_at 2000 ''a1'') (env_at 2000 ''r1'')
        (refresh_token (fst (create_token_pair (TokenManager None) (env_at 1000 ''a0'') (env_at 1000 ''r0'') (JStr ''42'')))))
      = Inr (Some pair1))
   \<and> fst (refresh_tokens
        (tm_run
          (snd (refresh_tokens
            (snd (create_token_pair (TokenManager None) (env_at 1000 ''a0'') (env_at 1000 ''r0'') (JStr ''42'')))
            2000 (env_at 2000 ''a1'') (env_at 2000 ''r1'')
            (refresh_token (fst (create_token_pair (TokenManager None) (env_at 1000 ''a0'') (env_at 1000 ''r0'') (JStr ''42''))))))
          [(2500, CreateTokenPair ''a2'' ''r2'' (JStr ''7'')), (2600, RevokeRefreshToken (Opaque ''x''))])
        3000 (env_at 3000 ''a3'') (env_at 3000 ''r3'')
        (refresh_token (fst (create_token_pair (TokenManager None) (env_at 1000 ''a0'') (env_at 1000 ''r0'') (JStr ''42'')))))
      = Inr None"
proof -
  let ?tm = "TokenManager None"
  let ?p = "create_token_pair ?tm (env_at 1000 ''a0'') (env_at 1000 ''r0'') (JStr ''42'')"
  let ?q = "refresh_tokens (snd ?p) 2000 (env_at 2000 ''a1'') (env_at 2000 ''r1'') (refresh_token (fst ?p))"
  let ?evs = "[(2500, CreateTokenPair ''a2'' ''r2'' (JStr ''7'')), (2600, RevokeRefreshToken (Opaque ''x''))]"
  have rot: "REFRESH_TOKEN_ROTATION (config ?tm)"
    by (simp add: TokenManager_def TokenConfig_def)
  have issue: "?p = (fst ?p, snd ?p)" by simp
  have live: "2000 \<le> utcnow_exp (env_at 1000 ''r0'') + REFRESH_TOKEN_LIFETIME (config ?tm)"
    by (simp add: TokenManager_def TokenConfig_def env_at_def)
  have first: "?q = (fst ?q, snd ?q)" by simp
  have new_id: "uuid4 (env_at 2000 ''r1'') \<noteq> uuid4 (env_at 1000 ''r0'')"
    by (simp add: env_at_def)
  have later: "\<forall>ev \<in> set ?evs. uuid4 (env_at 1000 ''r0'') \<notin> set (tm_draws (snd ev))"
    by (simp add: env_at_def)
  from refresh_rotation_single_use [OF rot issue live first new_id later,
      of 3000 "env_at 3000 ''a3''" "env_at 3000 ''r3''"]
  show ?thesis by simp
qed

section \<open>Blacklisting\<close>

lemma verify_access_token_blacklisted:
  "map_of claims ''jti'' = Some j \<Longrightarrow> j \<in> blacklisted_tokens tm \<Longrightarrow>
   verify_access_token tm now (JWT k a claims) = Inr None"
  by (simp add: verify_access_token_def jwt_decode_def dict_item_def)

lemma blacklist_token_undecodable:
  "jwt_decode now t (SECRET_KEY (config tm)) [ALGORITHM (config tm)] False = Inl e \<Longrightarrow>
   blacklist_token tm now t = Inr tm"
  by (simp add: blacklist_token_def)

lemma blacklist_token_opaque: "blacklist_token tm now (Opaque s) = Inr tm"
  by (simp add: blacklist_token_def jwt_decode_def)

lemma blacklist_token_adds_jti:
  "jwt_decode now t (SECRET_KEY (config tm)) [ALGORITHM (config tm)] False = Inr claims \<Longrightarrow>
   map_of claims ''jti'' = Some j \<Longrightarrow>
   blacklist_token tm now t = Inr (tm\<lparr>blacklisted_tokens := insert j (blacklisted_tokens tm)\<rparr>)"
  by (simp add: blacklist_token_def dict_item_def)

lemma decode_ignores_expiry:
  "validate_claims now False claims \<Longrightarrow>
   jwt_decode now (JWT key alg claims) key [alg] False = Inr claims"
  by (simp add: jwt_decode_def)

lemma blacklist_token_raises_iff:
  "blacklist_token tm now t = Inl e \<longleftrightarrow>
   (\<exists>claims. jwt_decode now t (SECRET_KEY (config tm)) [ALGORITHM (config tm)] False = Inr claims
      \<and> map_of claims ''jti'' = None \<and> e = KeyError ''jti'')"
  by (auto simp: blacklist_token_def dict_item_def split: sum.splits option.splits)

text \<open>
  C5 (blacklist effect). An access token A is issued; after any calls it is passed to
  \<open>blacklist_token\<close>, which returns normally and puts A's \<open>jti\<close> on the blacklist. After
  any further calls, \<open>verify_access_token\<close> of A returns \<open>None\<close> at every instant,
  whether or not A has expired.
\<close>

theorem blacklist_effect:
  assumes issue: "create_token_pair tm env_a env_r (JStr usr) = (pair, tm1)"
  shows "\<exists>tm2. blacklist_token (tm_run tm1 evs0) now (access_token pair) = Inr tm2
           \<and> JStr (uuid4 env_a) \<in> blacklisted_tokens tm2
           \<and> verify_access_token (tm_run tm2 evs) now' (access_token pair) = Inr None"
proof -
  let ?jti = "JStr (uuid4 env_a)"
  let ?claims = "[(''sub'', JStr usr), (''type'', JStr ''access''),
                  (''exp'', JInt (utcnow_exp env_a + ACCESS_TOKEN_LIFETIME (config tm))),
                  (''iat'', JInt (utcnow_iat env_a)), (''jti'', ?jti)]"
  let ?tmb = "tm_run tm1 evs0"
  let ?tm2 = "?tmb\<lparr>blacklisted_tokens := insert ?jti (blacklisted_tokens ?tmb)\<rparr>"
  from issue
  have A: "access_token pair = JWT (SECRET_KEY (config tm)) (ALGORITHM (config tm)) ?claims"
    and cfg1: "config tm1 = config tm"
    by (auto simp: create_token_pair_def create_refresh_token_def create_access_token_def
        jwt_encode_def Let_def)
  have cfgb: "config ?tmb = config tm"
    by (simp add: tm_run_config cfg1)
  have jti: "map_of ?claims ''jti'' = Some ?jti"
    by simp
  have "validate_claims now False ?claims"
    by (simp add: jose_defs)
  then have "jwt_decode now (access_token pair) (SECRET_KEY (config ?tmb)) [ALGORITHM (config ?tmb)] False
           = Inr ?claims"
    unfolding A cfgb by (rule decode_ignores_expiry)
  from blacklist_token_adds_jti [OF this jti]
  have bl: "blacklist_token ?tmb now (access_token pair) = Inr ?tm2" .
  have "?jti \<in> blacklisted_tokens ?tm2"
    by simp
  then have "?jti \<in> blacklisted_tokens (tm_run ?tm2 evs)"
    by (rule tm_run_blacklist)
  with jti have "verify_access_token (tm_run ?tm2 evs) now' (access_token pair) = Inr None"
    unfolding A by (rule verify_access_token_blacklisted)
  with bl show ?thesis
    by (intro exI [of _ ?tm2]) simp
qed

theorem blacklist_effect_witness:
  "\<exists>tm2. blacklist_token
          (tm_run (snd (create_token_pair (TokenManager None) (env_at 1000 ''a0'') (env_at 1000 ''r0'') (JStr ''42''))) [])
          1500
          (access_token (fst (create_token_pair (TokenManager None) (env_at 1000 ''a0'') (env_at 1000 ''r0'') (JStr ''42''))))
        = Inr tm2
      \<and> JStr ''a0'' \<in> blacklisted_tokens tm2
      \<and> verify_access_token (tm_run tm2 [(1600, CreateTokenPair ''a2'' ''r2'' (JStr ''7''))]) 1700
          (access_token (fst (create_token_pair (TokenManager None) (env_at 1000 ''a0'') (env_at 1000 ''r0'') (JStr ''42''))))
        = Inr None"
  using blacklist_effect [of "TokenManager None" "env_at 1000 ''a0''" "env_at 1000 ''r0''" "''42''"
      "fst (create_token_pair (TokenManager None) (env_at 1000 ''a0'') (env_at 1000 ''r0'') (JStr ''42''))"
      "snd (create_token_pair (TokenManager None) (env_at 1000 ''a0'') (env_at 1000 ''r0'') (JStr ''42''))"
      "[]" 1500 "[(1600, CreateTokenPair ''a2'' ''r2'' (JStr ''7''))]" 1700]
  by (simp add: env_at_def)

text \<open>
  C9 (\<open>blacklist_token\<close> never raises). A string that does not decode is ignored, and a
  decodable token has its \<open>jti\<close> added even when it has expired (the lemmas above). But a
  token signed with the configured key whose payload has no \<open>jti\<close> makes
  \<open>payload["jti"]\<close> raise \<open>KeyError\<close>, which the \<open>except JWTError\<close> clause lets through.
\<close>

theorem blacklist_token_without_jti_raises:
  "blacklist_token (TokenManager None) 0
     (jwt_encode [(''sub'', JStr ''u1''), (''type'', JStr ''access'')]
        (SECRET_KEY TokenConfig) (ALGORITHM TokenConfig))
   = Inl (KeyError ''jti'')"
  by (simp add: blacklist_token_def TokenManager_def TokenConfig_def jose_defs dict_item_def)

section \<open>The state store\<close>

lemma get_authorization_url_generated:
  "configs svc p = Some cfg \<Longrightarrow>
   get_authorization_url svc tok p None =
     Inr (auth_url cfg @ ''?'' @ urlencode
            [(''client_id'', client_id cfg), (''redirect_uri'', redirect_uri cfg),
             (''response_type'', ''code''), (''scope'', join '' '' (scopes cfg)), (''state'', tok)],
          svc\<lparr>state_store := (state_store svc)(tok \<mapsto> [(''provider'', JStr p)])\<rparr>)"
  by (simp add: get_authorization_url_def Let_def)

lemma get_authorization_url_supplied:
  "configs svc p = Some cfg \<Longrightarrow> truthy (JStr s) \<Longrightarrow>
   get_authorization_url svc tok p (Some s) =
     Inr (auth_url cfg @ ''?'' @ urlencode
            [(''client_id'', client_id cfg), (''redirect_uri'', redirect_uri cfg),
             (''response_type'', ''code''), (''scope'', join '' '' (scopes cfg)), (''state'', s)],
          svc)"
  by (simp add: get_authorization_url_def Let_def)

lemma get_authorization_url_empty:
  "get_authorization_url svc tok p (Some []) = get_authorization_url svc tok p None"
  by (simp add: get_authorization_url_def Let_def split: option.split)

lemma get_authorization_url_store:
  "get_authorization_url svc tok p st = Inr (url, svc') \<Longrightarrow>
   s \<notin> set (generated_states (GetAuthorizationUrl tok p st)) \<Longrightarrow>
   state_store svc' s = state_store svc s"
  by (cases st) (auto simp: get_authorization_url_def Let_def split: option.splits if_splits)

lemma handle_callback_store:
  "state_store (snd (handle_callback w svc ea er p c s)) = (state_store svc)(s := None)"
  by (auto simp: handle_callback_def Let_def split_beta split: option.split sum.split)

lemma handle_callback_unknown_state:
  "state_store svc s = None \<Longrightarrow>
   handle_callback w svc ea er p c s = (Inl (ValueError ''Invalid state parameter''), svc)"
  by (simp add: handle_callback_def)

lemma svc_step_absent:
  "state_store svc s = None \<Longrightarrow> s \<notin> set (generated_states (snd ev)) \<Longrightarrow>
   state_store (svc_step svc ev) s = None"
proof (cases "(svc, ev)" rule: svc_step.cases)
  case (1 svc0 now tok p st)
  assume "state_store svc s = None" "s \<notin> set (generated_states (snd ev))"
  with 1 show ?thesis
    by (auto split: sum.split dest: get_authorization_url_store)
qed (auto simp: handle_callback_store)

lemma svc_run_absent:
  "state_store svc s = None \<Longrightarrow> \<forall>ev \<in> set evs. s \<notin> set (generated_states (snd ev)) \<Longrightarrow>
   state_store (svc_run svc evs) s = None"
  unfolding svc_run_def by (induction evs arbitrary: svc) (simp_all add: svc_step_absent)

lemma handle_callback_success:
  assumes "state_store svc s = Some [(''provider'', JStr p)]"
    and "configs svc p = Some cfg"
    and "exchange_code_for_token w p code cfg = Inr token_data"
    and "dict_item token_data ''access_token'' = Inr access_tok"
    and "get_user_info w p access_tok cfg = Inr user_info"
    and "find_or_create_user w p user_info = Inr usr"
  shows "fst (handle_callback w svc ea er p code s) =
           Inr \<lparr>user = to_dict usr,
                tokens = fst (create_token_pair (token_manager svc) ea er (JStr (uid usr)))\<rparr>"
  using assms by (simp add: handle_callback_def Let_def split_beta dict_get_def)

text \<open>
  C2 (state single-use). \<open>get_authorization_url\<close> generates a state for a configured
  provider and stores it. The first \<open>handle_callback\<close> that presents it finds the record
  and deletes it; when it is a callback for the same provider and the collaborators
  answer, it returns the user and a token pair. After any further calls that do not
  generate the same token again, every \<open>handle_callback\<close> with that state raises
  \<open>Invalid state parameter\<close> and leaves the service as it is.
\<close>

theorem state_single_use:
  assumes gen: "get_authorization_url svc s p None = Inr (url, svc1)"
    and first: "handle_callback w svc1 env_a env_r p0 code s = (res, svc2)"
    and later: "\<forall>ev \<in> set evs. s \<notin> set (generated_states (snd ev))"
  shows "state_store svc1 s = Some [(''provider'', JStr p)]
       \<and> state_store svc2 = (state_store svc1)(s := None)
       \<and> (p0 = p \<and> configs svc p = Some cfg
            \<and> exchange_code_for_token w p code cfg = Inr token_data
            \<and> dict_item token_data ''access_token'' = Inr access_tok
            \<and> get_user_info w p access_tok cfg = Inr user_info
            \<and> find_or_create_user w p user_info = Inr usr
          \<longrightarrow> res = Inr \<lparr>user = to_dict usr,
                         tokens = fst (create_token_pair (token_manager svc) env_a env_r (JStr (uid usr)))\<rparr>)
       \<and> handle_callback w' (svc_run svc2 evs) env_a' env_r' p' code' s
           = (Inl (ValueError ''Invalid state parameter''), svc_run svc2 evs)"
proof -
  from gen obtain cfg0 where cfg0: "configs svc p = Some cfg0"
    by (auto simp: get_authorization_url_def split: option.splits)
  with gen
  have svc1: "svc1 = svc\<lparr>state_store := (state_store svc)(s \<mapsto> [(''provider'', JStr p)])\<rparr>"
    by (simp add: get_authorization_url_generated)
  then have stored: "state_store svc1 s = Some [(''provider'', JStr p)]"
    and cfg1: "configs svc1 = configs svc" and tm1: "token_manager svc1 = token_manager svc"
    by simp_all
  have success: "res = Inr \<lparr>user = to_dict usr,
                     tokens = fst (create_token_pair (token_manager svc) env_a env_r (JStr (uid usr)))\<rparr>"
    if "p0 = p" and "configs svc p = Some cfg"
      and "exchange_code_for_token w p code cfg = Inr token_data"
      and "dict_item token_data ''access_token'' = Inr access_tok"
      and "get_user_info w p access_tok cfg = Inr user_info"
      and "find_or_create_user w p user_info = Inr usr"
  proof -
    from that(2) have "configs svc1 p = Some cfg"
      by (simp add: cfg1)
    from handle_callback_success [OF stored this that(3-6), of env_a env_r] first that(1)
    show ?thesis by (simp add: tm1)
  qed
  from first have popped: "state_store svc2 = (state_store svc1)(s := None)"
    using handle_callback_store [of w svc1 env_a env_r p0 code s] by simp
  then have "state_store svc2 s = None"
    by simp
  then have "state_store (svc_run svc2 evs) s = None"
    using later by (rule svc_run_absent)
  then have "handle_callback w' (svc_run svc2 evs) env_a' env_r' p' code' s
           = (Inl (ValueError ''Invalid state parameter''), svc_run svc2 evs)"
    by (rule handle_callback_unknown_state)
  with stored success popped show ?thesis by blast
qed

text \<open>
  C6 (provider mismatch). A state generated for provider \<open>p1\<close> and presented by a callback
  for another provider \<open>p2\<close> raises \<open>Provider mismatch\<close>; the state has been popped by
  then.
\<close>

theorem provider_mismatch_rejected:
  assumes gen: "get_authorization_url svc s p1 None = Inr (url, svc1)"
    and other: "p2 \<noteq> p1"
  shows "handle_callback w svc1 env_a env_r p2 code s
           = (Inl (ValueError ''Provider mismatch''),
              svc1\<lparr>state_store := (state_store svc1)(s := None)\<rparr>)"
  using assms
  by (auto simp: get_authorization_url_def handle_callback_def Let_def dict_get_def
      split: option.splits)

text \<open>
  C10 (caller-supplied state). A non-empty state passed by the caller, which is not a
  stored (generated) state, ends the returned URL as \<open>state=\<dots>\<close> and the service is
  returned unchanged: nothing is stored. After any calls that do not generate that very
  token, every \<open>handle_callback\<close> with it raises \<open>Invalid state parameter\<close>.
\<close>

theorem supplied_state_never_stored:
  assumes cfg: "configs svc p = Some cfg"
    and supplied: "truthy (JStr s)"
    and absent: "state_store svc s = None"
    and later: "\<forall>ev \<in> set evs. s \<notin> set (generated_states (snd ev))"
  shows "(\<exists>pre. get_authorization_url svc tok p (Some s) = Inr (pre @ ''state='' @ quote_plus s, svc))
       \<and> handle_callback w (svc_run svc evs) env_a env_r p' code s
           = (Inl (ValueError ''Invalid state parameter''), svc_run svc evs)"
proof -
  have "quote_plus ''state'' = ''state''"
    by (simp add: always_safe_def)
  then have "\<exists>pre. get_authorization_url svc tok p (Some s) = Inr (pre @ ''state='' @ quote_plus s, svc)"
    unfolding get_authorization_url_supplied [OF cfg supplied]
    by (intro exI [of _ "auth_url cfg @ ''?'' @ quote_plus ''client_id'' @ ''='' @ quote_plus (client_id cfg)
          @ ''&'' @ quote_plus ''redirect_uri'' @ ''='' @ quote_plus (redirect_uri cfg)
          @ ''&'' @ quote_plus ''response_type'' @ ''='' @ quote_plus ''code''
          @ ''&'' @ quote_plus ''scope'' @ ''='' @ quote_plus (join '' '' (scopes cfg)) @ ''&''"])
       (simp add: urlencode_def)
  moreover from absent later have "state_store (svc_run svc evs) s = None"
    by (rule svc_run_absent)
  then have "handle_callback w (svc_run svc evs) env_a env_r p' code s
           = (Inl (ValueError ''Invalid state parameter''), svc_run svc evs)"
    by (rule handle_callback_unknown_state)
  ultimately show ?thesis by simp
qed

lemma get_authorization_url_configs:
  "get_authorization_url svc tok p st = Inr (url, svc') \<Longrightarrow> configs svc' = configs svc"
  by (cases st) (auto simp: get_authorization_url_def Let_def split: option.splits if_splits)

lemma handle_callback_configs:
  "configs (snd (handle_callback w svc ea er p c s)) = configs svc"
  by (auto simp: handle_callback_def Let_def split_beta split: option.split sum.split)

lemma svc_step_configs: "configs (svc_step svc ev) = configs svc"
  by (cases "(svc, ev)" rule: svc_step.cases)
     (auto simp: handle_callback_configs split: sum.split dest: get_authorization_url_configs)

lemma svc_run_configs: "configs (svc_run svc evs) = configs svc"
  unfolding svc_run_def by (induction evs arbitrary: svc) (simp_all add: svc_step_configs)

lemma svc_step_kept:
  "state_store svc s = Some v \<Longrightarrow> s \<notin> set (generated_states (snd ev)) \<Longrightarrow>
   s \<notin> set (presented_states (snd ev)) \<Longrightarrow> state_store (svc_step svc ev) s = Some v"
proof (cases "(svc, ev)" rule: svc_step.cases)
  case (1 svc0 now tok p st)
  assume "state_store svc s = Some v" "s \<notin> set (generated_states (snd ev))"
  with 1 show ?thesis
    by (auto split: sum.split dest: get_authorization_url_store)
qed (auto simp: handle_callback_store)

lemma svc_run_kept:
  "state_store svc s = Some v \<Longrightarrow>
   \<forall>ev \<in> set evs. s \<notin> set (generated_states (snd ev)) \<and> s \<notin> set (presented_states (snd ev)) \<Longrightarrow>
   state_store (svc_run svc evs) s = Some v"
  unfolding svc_run_def by (induction evs arbitrary: svc) (simp_all add: svc_step_kept)

text \<open>
  C3 (state expiry), as the code has it. The store keeps \<open>{"provider": provider}\<close> and no
  creation time, and \<open>handle_callback\<close> reads no clock before it accepts a state. A state
  generated at any instant, and neither presented nor generated again by the calls that
  follow, is accepted at every instant \<open>now\<close>, the collaborators answering; there is no
  validity window.
\<close>

theorem state_accepted_at_any_time:
  assumes cfg: "configs svc p = Some cfg"
    and exch: "exchange_code_for_token w p code cfg = Inr token_data"
    and tok: "dict_item token_data ''access_token'' = Inr access_tok"
    and info: "get_user_info w p access_tok cfg = Inr user_info"
    and usr: "find_or_create_user w p user_info = Inr usr"
    and kept: "\<forall>ev \<in> set evs. s \<notin> set (generated_states (snd ev))
                 \<and> s \<notin> set (presented_states (snd ev))"
    and svc1: "svc1 = svc_run svc ((created, GetAuthorizationUrl s p None) # evs)"
  shows "fst (handle_callback w svc1 (env_at now ua) (env_at now ur) p code s)
         = Inr \<lparr>user = to_dict usr,
                tokens = fst (create_token_pair (token_manager svc1)
                                (env_at now ua) (env_at now ur) (JStr (uid usr)))\<rparr>"
proof -
  let ?svc0 = "svc\<lparr>state_store := (state_store svc)(s \<mapsto> [(''provider'', JStr p)])\<rparr>"
  have run: "svc1 = svc_run ?svc0 evs"
    unfolding svc1 by (simp add: svc_run_def get_authorization_url_generated [OF cfg])
  have "state_store ?svc0 s = Some [(''provider'', JStr p)]"
    by simp
  then have stored: "state_store svc1 s = Some [(''provider'', JStr p)]"
    unfolding run using kept by (rule svc_run_kept)
  have cfg1: "configs svc1 p = Some cfg"
    unfolding run using cfg by (simp add: svc_run_configs)
  from handle_callback_success [OF stored cfg1 exch tok info usr]
  show ?thesis .
qed

section \<open>The example service\<close>

lemma example_github:
  "configs example_service ''github'' = Some (snd (OAUTH_CONFIGS ! 1))"
  by (simp add: example_service_def OAuthService_def OAUTH_CONFIGS_def)

lemma example_google:
  "configs example_service ''google'' = Some (snd (OAUTH_CONFIGS ! 0))"
  by (simp add: example_service_def OAuthService_def OAUTH_CONFIGS_def)

lemma example_store: "state_store example_service = Map.empty"
  by (simp add: example_service_def OAuthService_def)

lemma example_generate:
  "configs example_service p = Some cfg \<Longrightarrow>
   get_authorization_url example_service s p None =
     Inr (auth_url cfg @ ''?'' @ urlencode
            [(''client_id'', client_id cfg), (''redirect_uri'', redirect_uri cfg),
             (''response_type'', ''code''), (''scope'', join '' '' (scopes cfg)), (''state'', s)],
          svc_run example_service [(created, GetAuthorizationUrl s p None)])"
  by (simp add: get_authorization_url_generated svc_run_def)

lemma stub_exchange:
  "exchange_code_for_token stub_world p code cfg = Inr [(''access_token'', JStr ''gho_1'')]"
  by (simp add: exchange_code_for_token_def stub_world_def)

lemma stub_access_token:
  "dict_item [(''access_token'', JStr ''gho_1'')] ''access_token'' = Inr (JStr ''gho_1'')"
  by (simp add: dict_item_def)

lemma stub_user_info:
  "get_user_info stub_world p tok cfg = Inr [(''login'', JStr ''u1'')]"
  by (simp add: get_user_info_def stub_world_def)

lemma stub_user:
  "find_or_create_user stub_world p info = Inr \<lparr>uid = ''42'', to_dict = [(''id'', JInt 42)]\<rparr>"
  by (simp add: stub_world_def)

theorem state_single_use_witness:
  "fst (handle_callback stub_world
          (svc_run example_service [(0, GetAuthorizationUrl ''S1'' ''github'' None)])
          (env_at 5 ''a1'') (env_at 5 ''r1'') ''github'' ''c1'' ''S1'')
     = Inr \<lparr>user = [(''id'', JInt 42)],
            tokens = fst (create_token_pair (token_manager example_service)
                            (env_at 5 ''a1'') (env_at 5 ''r1'') (JStr ''42''))\<rparr>
   \<and> handle_callback stub_world
        (svc_run
           (snd (handle_callback stub_world
                   (svc_run example_service [(0, GetAuthorizationUrl ''S1'' ''github'' None)])
                   (env_at 5 ''a1'') (env_at 5 ''r1'') ''github'' ''c1'' ''S1''))
           [(6, GetAuthorizationUrl ''S2'' ''google'' None)])
        (env_at 7 ''a2'') (env_at 7 ''r2'') ''github'' ''c1'' ''S1''
     = (Inl (ValueError ''Invalid state parameter''),
        svc_run
           (snd (handle_callback stub_world
                   (svc_run example_service [(0, GetAuthorizationUrl ''S1'' ''github'' None)])
                   (env_at 5 ''a1'') (env_at 5 ''r1'') ''github'' ''c1'' ''S1''))
           [(6, GetAuthorizationUrl ''S2'' ''google'' None)])"
proof -
  let ?svc1 = "svc_run example_service [(0, GetAuthorizationUrl ''S1'' ''github'' None)]"
  let ?first = "handle_callback stub_world ?svc1 (env_at 5 ''a1'') (env_at 5 ''r1'') ''github'' ''c1'' ''S1''"
  let ?evs = "[(6::int, GetAuthorizationUrl ''S2'' ''google'' None)]"
  have first: "?first = (fst ?first, snd ?first)"
    by simp
  have later: "\<forall>ev \<in> set ?evs. ''S1'' \<notin> set (generated_states (snd ev))"
    by simp
  from state_single_use [OF example_generate [OF example_github] first later,
      where cfg = "snd (OAUTH_CONFIGS ! 1)" and token_data = "[(''access_token'', JStr ''gho_1'')]"
        and access_tok = "JStr ''gho_1''" and user_info = "[(''login'', JStr ''u1'')]"
        and usr = "\<lparr>uid = ''42'', to_dict = [(''id'', JInt 42)]\<rparr>"
        and w' = stub_world and env_a' = "env_at 7 ''a2''" and env_r' = "env_at 7 ''r2''"
        and p' = "''github''" and code' = "''c1''"]
  show ?thesis
    by (simp add: example_github stub_exchange stub_access_token stub_user_info stub_user)
qed

theorem provider_mismatch_rejected_witness:
  "fst (handle_callback stub_world
          (svc_run example_service [(0, GetAuthorizationUrl ''S1'' ''google'' None)])
          (env_at 5 ''a1'') (env_at 5 ''r1'') ''github'' ''c1'' ''S1'')
     = Inl (ValueError ''Provider mismatch'')"
proof -
  have other: "''github'' \<noteq> ''google''"
    by simp
  from provider_mismatch_rejected [OF example_generate [OF example_google] other,
      where w = stub_world and env_a = "env_at 5 ''a1''" and env_r = "env_at 5 ''r1''"
        and code = "''c1''"]
  show ?thesis by simp
qed

theorem supplied_state_never_stored_witness:
  "(\<exists>pre. get_authorization_url example_service ''T1'' ''github'' (Some ''mine'')
            = Inr (pre @ ''state='' @ quote_plus ''mine'', example_service))
   \<and> fst (handle_callback stub_world
            (svc_run example_service [(1, GetAuthorizationUrl ''S2'' ''github'' None)])
            (env_at 5 ''a1'') (env_at 5 ''r1'') ''github'' ''c1'' ''mine'')
       = Inl (ValueError ''Invalid state parameter'')"
proof -
  let ?evs = "[(1::int, GetAuthorizationUrl ''S2'' ''github'' None)]"
  have supplied: "truthy (JStr ''mine'')"
    by simp
  have absent: "state_store example_service ''mine'' = None"
    by (simp add: example_store)
  have later: "\<forall>ev \<in> set ?evs. ''mine'' \<notin> set (generated_states (snd ev))"
    by simp
  from supplied_state_never_stored [OF example_github supplied absent later,
      where tok = "''T1''" and w = stub_world and env_a = "env_at 5 ''a1''"
        and env_r = "env_at 5 ''r1''" and p' = "''github''" and code = "''c1''"]
  show ?thesis by simp
qed

theorem state_accepted_at_any_time_witness:
  "fst (handle_callback stub_world
          (svc_run example_service
             [(0, GetAuthorizationUrl ''S1'' ''github'' None),
              (300, GetAuthorizationUrl ''S2'' ''google'' None),
              (400, HandleCallback stub_world ''a0'' ''r0'' ''google'' ''c0'' ''S2'')])
          (env_at 86400 ''a1'') (env_at 86400 ''r1'') ''github'' ''c1'' ''S1'')
     = Inr \<lparr>user = [(''id'', JInt 42)],
            tokens = fst (create_token_pair
                            (token_manager (svc_run example_service
                               [(0, GetAuthorizationUrl ''S1'' ''github'' None),
                                (300, GetAuthorizationUrl ''S2'' ''google'' None),
                                (400, HandleCallback stub_world ''a0'' ''r0'' ''google'' ''c0'' ''S2'')]))
                            (env_at 86400 ''a1'') (env_at 86400 ''r1'') (JStr ''42''))\<rparr>"
proof -
  let ?evs = "[(300::int, GetAuthorizationUrl ''S2'' ''google'' None),
               (400, HandleCallback stub_world ''a0'' ''r0'' ''google'' ''c0'' ''S2'')]"
  have kept: "\<forall>ev \<in> set ?evs. ''S1'' \<notin> set (generated_states (snd ev))
                 \<and> ''S1'' \<notin> set (presented_states (snd ev))"
    by simp
  from state_accepted_at_any_time [OF example_github stub_exchange stub_access_token
      stub_user_info stub_user kept refl,
      where created = 0 and now = 86400 and ua = "''a1''" and ur = "''r1''"]
  show ?thesis by simp
qed

text \<open>
  C3 as stated fails: a state generated at instant 0 and presented at instant 660, eleven
  minutes later and past a ten-minute window, is not rejected; the callback returns
  normally.
\<close>

theorem state_expiry_counterexample:
  "(0::int) + 600 < 660
   \<and> fst (handle_callback stub_world
            (svc_run example_service [(0, GetAuthorizationUrl ''S1'' ''github'' None)])
            (env_at 660 ''a1'') (env_at 660 ''r1'') ''github'' ''c1'' ''S1'')
       \<noteq> Inl (ValueError ''Invalid state parameter'')
   \<and> \<not> isl (fst (handle_callback stub_world
            (svc_run example_service [(0, GetAuthorizationUrl ''S1'' ''github'' None)])
            (env_at 660 ''a1'') (env_at 660 ''r1'') ''github'' ''c1'' ''S1''))"
proof -
  let ?svc1 = "svc_run example_service [(0, GetAuthorizationUrl ''S1'' ''github'' None)]"
  have run: "?svc1 = example_service\<lparr>state_store :=
               (state_store example_service)(''S1'' \<mapsto> [(''provider'', JStr ''github'')])\<rparr>"
    by (simp add: svc_run_def get_authorization_url_generated [OF example_github])
  have stored: "state_store ?svc1 ''S1'' = Some [(''provider'', JStr ''github'')]"
    and cfg: "configs ?svc1 ''github'' = Some (snd (OAUTH_CONFIGS ! 1))"
    unfolding run using example_github by simp_all
  from handle_callback_success [OF stored cfg stub_exchange stub_access_token stub_user_info
      stub_user, where ea = "env_at 660 ''a1''" and er = "env_at 660 ''r1''"]
  show ?thesis by simp
qed

section \<open>The WeChat adapter\<close>

lemma WeChat_get_user_info_ok:
  assumes "httpx_get (WECHAT_API_BASE @ ''/sns/userinfo'')
             [(''access_token'', access_tok), (''openid'', openid), (''lang'', JStr ''zh_CN'')] = data"
    and "\<not> has_errcode data"
  shows "WeChat_get_user_info httpx_get svc access_tok openid =
           Inr [(''openid'', dict_get data ''openid''),
                (''nickname'', dict_get data ''nickname''),
                (''sex'', dict_get data ''sex''),
                (''province'', dict_get data ''province''),
                (''city'', dict_get data ''city''),
                (''country'', dict_get data ''country''),
                (''headimgurl'', dict_get data ''headimgurl''),
                (''privilege'', dict_get_default data ''privilege'' (JList [])),
                (''unionid'', dict_get data ''unionid'')]"
  using assms by (simp add: WeChat_get_user_info_def Let_def)

lemma WeChat_handle_callback_expires_in:
  assumes "httpx_get (WECHAT_API_BASE @ ''/sns/oauth2/access_token'')
             [(''appid'', JStr (app_id svc)), (''secret'', JStr (app_secret svc)),
              (''code'', JStr code), (''grant_type'', JStr ''authorization_code'')] = token_data"
    and "WeChat_handle_callback httpx_get svc code = Inr r"
  shows "dict_get r ''expires_in'' = dict_get_default token_data ''expires_in'' (JInt 7200)"
  using assms
  by (auto simp: WeChat_handle_callback_def Let_def dict_get_def split: if_splits sum.splits)

text \<open>
  C7 (identity normalisation), as the code has it. When neither response carries an error
  code, the WeChat adapter returns \<open>provider = "wechat"\<close>, the \<open>openid\<close> of the token
  response, and under \<open>user_info\<close> the \<open>openid\<close>, \<open>nickname\<close> and \<open>headimgurl\<close> of the
  user-info payload under those same names. No field is renamed: neither level has a
  \<open>providerId\<close>, \<open>subjectId\<close>, \<open>displayName\<close> or \<open>avatarURL\<close>.
\<close>

theorem wechat_fields_pass_through:
  assumes tok: "httpx_get (WECHAT_API_BASE @ ''/sns/oauth2/access_token'')
             [(''appid'', JStr (app_id svc)), (''secret'', JStr (app_secret svc)),
              (''code'', JStr code), (''grant_type'', JStr ''authorization_code'')] = token_data"
    and tok_ok: "\<not> has_errcode token_data"
    and at: "map_of token_data ''access_token'' = Some access_tok"
    and oid: "map_of token_data ''openid'' = Some openid"
    and info: "httpx_get (WECHAT_API_BASE @ ''/sns/userinfo'')
             [(''access_token'', access_tok), (''openid'', openid), (''lang'', JStr ''zh_CN'')] = data"
    and info_ok: "\<not> has_errcode data"
  shows "\<exists>r ui. WeChat_handle_callback httpx_get svc code = Inr r
           \<and> dict_get r ''provider'' = JStr ''wechat''
           \<and> dict_get r ''openid'' = openid
           \<and> dict_get r ''user_info'' = JDict ui
           \<and> dict_get ui ''openid'' = dict_get data ''openid''
           \<and> dict_get ui ''nickname'' = dict_get data ''nickname''
           \<and> dict_get ui ''headimgurl'' = dict_get data ''headimgurl''
           \<and> map_of r ''providerId'' = None \<and> map_of ui ''providerId'' = None
           \<and> map_of r ''subjectId'' = None \<and> map_of ui ''subjectId'' = None
           \<and> map_of r ''displayName'' = None \<and> map_of ui ''displayName'' = None
           \<and> map_of r ''avatarURL'' = None \<and> map_of ui ''avatarURL'' = None"
  using tok tok_ok at oid WeChat_get_user_info_ok [where httpx_get = httpx_get and svc = svc, OF info info_ok]
  by (simp add: WeChat_handle_callback_def Let_def dict_item_def dict_get_def)

lemma wechat_stub_token:
  "wechat_stub extra (WECHAT_API_BASE @ ''/sns/oauth2/access_token'') params
     = [(''access_token'', JStr ''t1''), (''openid'', JStr ''abc'')] @ extra"
  by (simp add: wechat_stub_def WECHAT_API_BASE_def)

lemma wechat_stub_userinfo:
  "wechat_stub extra (WECHAT_API_BASE @ ''/sns/userinfo'') params
     = [(''openid'', JStr ''abc''), (''nickname'', JStr xiaoming), (''headimgurl'', JStr ''http://x'')]"
  by (simp add: wechat_stub_def)

lemma wechat_stub_result:
  "map_of extra ''errcode'' = None \<Longrightarrow>
   WeChat_handle_callback (wechat_stub extra) svc code =
     Inr [(''provider'', JStr ''wechat''),
          (''openid'', JStr ''abc''),
          (''unionid'', dict_get ([(''access_token'', JStr ''t1''), (''openid'', JStr ''abc'')] @ extra) ''unionid''),
          (''access_token'', JStr ''t1''),
          (''refresh_token'', dict_get ([(''access_token'', JStr ''t1''), (''openid'', JStr ''abc'')] @ extra) ''refresh_token''),
          (''expires_in'', dict_get_default ([(''access_token'', JStr ''t1''), (''openid'', JStr ''abc'')] @ extra) ''expires_in'' (JInt 7200)),
          (''user_info'', JDict
             [(''openid'', JStr ''abc''),
              (''nickname'', JStr xiaoming),
              (''sex'', JNone),
              (''province'', JNone),
              (''city'', JNone),
              (''country'', JNone),
              (''headimgurl'', JStr ''http://x''),
              (''privilege'', JList []),
              (''unionid'', JNone)])]"
  by (simp add: WeChat_handle_callback_def WeChat_get_user_info_def Let_def wechat_stub_token
      wechat_stub_userinfo has_errcode_def dict_item_def dict_get_def dict_get_default_def)

theorem wechat_fields_pass_through_witness:
  "\<exists>r ui. WeChat_handle_callback (wechat_stub []) example_wechat ''c1'' = Inr r
     \<and> dict_get r ''provider'' = JStr ''wechat''
     \<and> dict_get r ''openid'' = JStr ''abc''
     \<and> dict_get r ''user_info'' = JDict ui
     \<and> dict_get ui ''openid'' = JStr ''abc''
     \<and> dict_get ui ''nickname'' = JStr xiaoming
     \<and> dict_get ui ''headimgurl'' = JStr ''http://x''
     \<and> map_of r ''displayName'' = None \<and> map_of ui ''displayName'' = None
     \<and> map_of r ''avatarURL'' = None \<and> map_of ui ''avatarURL'' = None"
proof -
  let ?token_data = "[(''access_token'', JStr ''t1''), (''openid'', JStr ''abc'')]"
  let ?data = "[(''openid'', JStr ''abc''), (''nickname'', JStr xiaoming), (''headimgurl'', JStr ''http://x'')]"
  have tok: "wechat_stub [] (WECHAT_API_BASE @ ''/sns/oauth2/access_token'')
             [(''appid'', JStr (app_id example_wechat)), (''secret'', JStr (app_secret example_wechat)),
              (''code'', JStr ''c1''), (''grant_type'', JStr ''authorization_code'')] = ?token_data"
    by (simp add: wechat_stub_token)
  have tok_ok: "\<not> has_errcode ?token_data"
    by (simp add: has_errcode_def)
  have at: "map_of ?token_data ''access_token'' = Some (JStr ''t1'')"
    and oid: "map_of ?token_data ''openid'' = Some (JStr ''abc'')"
    by simp_all
  have info: "wechat_stub [] (WECHAT_API_BASE @ ''/sns/userinfo'')
             [(''access_token'', JStr ''t1''), (''openid'', JStr ''abc''), (''lang'', JStr ''zh_CN'')] = ?data"
    by (simp add: wechat_stub_userinfo)
  have info_ok: "\<not> has_errcode ?data"
    by (simp add: has_errcode_def)
  from wechat_fields_pass_through [where httpx_get = "wechat_stub []" and svc = example_wechat,
      OF tok tok_ok at oid info info_ok]
  show ?thesis by (simp add: dict_get_def) blast
qed

text \<open>
  C7 as stated fails: fed the payload \<open>{openid: "abc", nickname: "\<dots>", headimgurl:
  "http://x"}\<close>, the adapter returns WeChat's own field names at both levels; the result
  has no \<open>providerId\<close>, \<open>subjectId\<close>, \<open>displayName\<close> or \<open>avatarURL\<close>.
\<close>

theorem wechat_canonical_shape_counterexample:
  "WeChat_handle_callback (wechat_stub []) example_wechat ''c1'' =
     Inr [(''provider'', JStr ''wechat''),
          (''openid'', JStr ''abc''),
          (''unionid'', JNone),
          (''access_token'', JStr ''t1''),
          (''refresh_token'', JNone),
          (''expires_in'', JInt 7200),
          (''user_info'', JDict
             [(''openid'', JStr ''abc''),
              (''nickname'', JStr xiaoming),
              (''sex'', JNone),
              (''province'', JNone),
              (''city'', JNone),
              (''country'', JNone),
              (''headimgurl'', JStr ''http://x''),
              (''privilege'', JList []),
              (''unionid'', JNone)])]
   \<and> WeChat_handle_callback (wechat_stub []) example_wechat ''c1'' \<noteq>
     Inr [(''providerId'', JStr ''wechat''),
          (''subjectId'', JStr ''abc''),
          (''displayName'', JStr xiaoming),
          (''avatarURL'', JStr ''http://x'')]
   \<and> WeChat_get_user_info (wechat_stub []) example_wechat (JStr ''t1'') (JStr ''abc'') \<noteq>
     Inr [(''providerId'', JStr ''wechat''),
          (''subjectId'', JStr ''abc''),
          (''displayName'', JStr xiaoming),
          (''avatarURL'', JStr ''http://x'')]"
  by (simp add: wechat_stub_result dict_get_def dict_get_default_def
      WeChat_get_user_info_def wechat_stub_userinfo has_errcode_def Let_def)

text \<open>
  C8 (token-lifetime default), as the code has it. The WeChat adapter takes the default of
  7200 seconds only when the token response has no \<open>expires_in\<close> entry; an entry that is
  present, \<open>0\<close> included, is carried into the result unchanged.
\<close>

theorem wechat_expires_in_default:
  assumes "httpx_get (WECHAT_API_BASE @ ''/sns/oauth2/access_token'')
             [(''appid'', JStr (app_id svc)), (''secret'', JStr (app_secret svc)),
              (''code'', JStr code), (''grant_type'', JStr ''authorization_code'')] = token_data"
    and "WeChat_handle_callback httpx_get svc code = Inr r"
  shows "dict_get r ''expires_in'' =
           (case map_of token_data ''expires_in'' of None \<Rightarrow> JInt 7200 | Some v \<Rightarrow> v)"
  using WeChat_handle_callback_expires_in [where httpx_get = httpx_get and svc = svc, OF assms]
  by (simp add: dict_get_default_def)

theorem wechat_expires_in_default_witness:
  "dict_get
     [(''provider'', JStr ''wechat''),
      (''openid'', JStr ''abc''),
      (''unionid'', JNone),
      (''access_token'', JStr ''t1''),
      (''refresh_token'', JNone),
      (''expires_in'', JInt 7200),
      (''user_info'', JDict
         [(''openid'', JStr ''abc''),
          (''nickname'', JStr xiaoming),
          (''sex'', JNone),
          (''province'', JNone),
          (''city'', JNone),
          (''country'', JNone),
          (''headimgurl'', JStr ''http://x''),
          (''privilege'', JList []),
          (''unionid'', JNone)])] ''expires_in''
   = JInt 7200"
proof -
  have tok: "wechat_stub [] (WECHAT_API_BASE @ ''/sns/oauth2/access_token'')
             [(''appid'', JStr (app_id example_wechat)), (''secret'', JStr (app_secret example_wechat)),
              (''code'', JStr ''c1''), (''grant_type'', JStr ''authorization_code'')]
           = [(''access_token'', JStr ''t1''), (''openid'', JStr ''abc'')]"
    by (simp add: wechat_stub_token)
  have res: "WeChat_handle_callback (wechat_stub []) example_wechat ''c1'' =
     Inr [(''provider'', JStr ''wechat''),
          (''openid'', JStr ''abc''),
          (''unionid'', JNone),
          (''access_token'', JStr ''t1''),
          (''refresh_token'', JNone),
          (''expires_in'', JInt 7200),
          (''user_info'', JDict
             [(''openid'', JStr ''abc''),
              (''nickname'', JStr xiaoming),
              (''sex'', JNone),
              (''province'', JNone),
              (''city'', JNone),
              (''country'', JNone),
              (''headimgurl'', JStr ''http://x''),
              (''privilege'', JList []),
              (''unionid'', JNone)])]"
    by (simp add: wechat_stub_result dict_get_def dict_get_default_def)
  from wechat_expires_in_default [where httpx_get = "wechat_stub []" and svc = example_wechat,
      OF tok res]
  show ?thesis by simp
qed

text \<open>
  C8 as stated fails: a WeChat token response that reports \<open>expires_in = 0\<close> gives a result
  whose \<open>expires_in\<close> is \<open>0\<close>, not 7200.
\<close>

theorem wechat_expires_in_zero_counterexample:
  "WeChat_handle_callback (wechat_stub [(''expires_in'', JInt 0)]) example_wechat ''c1'' =
     Inr [(''provider'', JStr ''wechat''),
          (''openid'', JStr ''abc''),
          (''unionid'', JNone),
          (''access_token'', JStr ''t1''),
          (''refresh_token'', JNone),
          (''expires_in'', JInt 0),
          (''user_info'', JDict
             [(''openid'', JStr ''abc''),
              (''nickname'', JStr xiaoming),
              (''sex'', JNone),
              (''province'', JNone),
              (''city'', JNone),
              (''country'', JNone),
              (''headimgurl'', JStr ''http://x''),
              (''privilege'', JList []),
              (''unionid'', JNone)])]"
  by (simp add: wechat_stub_result dict_get_def dict_get_default_def)

end
